theory Spec2Isabelle
  imports Main "HOL-Library.Sublist"
begin

section \<open>Path strings\<close>

text \<open>
  The migration code of \<^verbatim>\<open>DeassimilateProcess.py\<close> builds every path it touches from
  strings, with \<^verbatim>\<open>str.lstrip\<close>, \<^verbatim>\<open>str.rstrip\<close>, \<^verbatim>\<open>os.path.join\<close> and
  \<^verbatim>\<open>pathlib.Path\<close>. The definitions of this section follow the POSIX flavour of those
  library functions. A string is a list of characters; the separator is \<^verbatim>\<open>/\<close>.
\<close>

definition lstrip_sep :: "string \<Rightarrow> string" where
  \<comment> \<open>\<^verbatim>\<open>s.lstrip("/")\<close>\<close>
  "lstrip_sep s = dropWhile (\<lambda>c. c = CHR ''/'') s"

definition rstrip_sep :: "string \<Rightarrow> string" where
  \<comment> \<open>\<^verbatim>\<open>s.rstrip("/")\<close>\<close>
  "rstrip_sep s = rev (dropWhile (\<lambda>c. c = CHR ''/'') (rev s))"

definition startswith_sep :: "string \<Rightarrow> bool" where
  \<comment> \<open>\<^verbatim>\<open>s.startswith("/")\<close>\<close>
  "startswith_sep s \<longleftrightarrow> (case s of [] \<Rightarrow> False | c # _ \<Rightarrow> c = CHR ''/'')"

definition endswith_sep :: "string \<Rightarrow> bool" where
  \<comment> \<open>\<^verbatim>\<open>s.endswith("/")\<close>\<close>
  "endswith_sep s \<longleftrightarrow> s \<noteq> [] \<and> last s = CHR ''/''"

fun split_sep :: "string \<Rightarrow> string list" where
  \<comment> \<open>\<^verbatim>\<open>s.split("/")\<close>: never empty, one more field than there are separators\<close>
  "split_sep [] = [[]]"
| "split_sep (c # cs) =
     (if c = CHR ''/'' then [] # split_sep cs
      else (case split_sep cs of [] \<Rightarrow> [[c]] | w # ws \<Rightarrow> (c # w) # ws))"

fun join_sep :: "string list \<Rightarrow> string" where
  \<comment> \<open>\<^verbatim>\<open>"/".join(ps)\<close>\<close>
  "join_sep [] = []"
| "join_sep [p] = p"
| "join_sep (p # q # ps) = p @ ''/'' @ join_sep (q # ps)"

definition components :: "string \<Rightarrow> string list" where
  \<comment> \<open>the fields pathlib keeps when it parses a string: empty fields and \<^verbatim>\<open>.\<close> are dropped\<close>
  "components s = filter (\<lambda>x. x \<noteq> [] \<and> x \<noteq> ''.'') (split_sep s)"

text \<open>
  A \<^verbatim>\<open>PurePosixPath\<close> is a root (empty, \<^verbatim>\<open>/\<close>, or \<^verbatim>\<open>//\<close> for exactly two leading
  slashes) and the list of its components. \<^verbatim>\<open>str\<close> of the empty relative path is
  \<^verbatim>\<open>.\<close>.
\<close>

record pure_path =
  root :: string
  parts :: "string list"

definition splitroot :: "string \<Rightarrow> string \<times> string" where
  "splitroot p =
     (if startswith_sep p then
        (let stripped = lstrip_sep p in
         if length p - length stripped = 2 then (''//'', stripped) else (''/'', stripped))
      else ([], p))"

definition Path :: "string \<Rightarrow> pure_path" where
  "Path s = (case splitroot s of (r, rel) \<Rightarrow> \<lparr>root = r, parts = components rel\<rparr>)"

definition str_path :: "pure_path \<Rightarrow> string" where
  "str_path p = (if root p = [] \<and> parts p = [] then ''.'' else root p @ join_sep (parts p))"

definition truediv :: "pure_path \<Rightarrow> pure_path \<Rightarrow> pure_path" where
  \<comment> \<open>\<^verbatim>\<open>a / b\<close>: an absolute right operand replaces the left one\<close>
  "truediv a b = (if root b \<noteq> [] then b else \<lparr>root = root a, parts = parts a @ parts b\<rparr>)"

definition path_name :: "pure_path \<Rightarrow> string" where
  \<comment> \<open>\<^verbatim>\<open>p.name\<close>: the final component, empty when there is none\<close>
  "path_name p = (if parts p = [] then [] else last (parts p))"

definition with_name :: "pure_path \<Rightarrow> string \<Rightarrow> pure_path" where
  \<comment> \<open>\<^verbatim>\<open>p.with_name(n)\<close> for a path that has a name and a valid new name\<close>
  "with_name p n = p\<lparr>parts := butlast (parts p) @ [n]\<rparr>"

definition rfind :: "char \<Rightarrow> string \<Rightarrow> int" where
  \<comment> \<open>\<^verbatim>\<open>s.rfind(c)\<close>: the highest index of \<open>c\<close>, or \<open>-1\<close>\<close>
  "rfind c s = (case filter (\<lambda>i. s ! i = c) (rev [0..<length s]) of
                  [] \<Rightarrow> - 1 | i # _ \<Rightarrow> int i)"

definition path_suffix :: "pure_path \<Rightarrow> string" where
  \<comment> \<open>\<^verbatim>\<open>p.suffix\<close>: from the last dot of the name, unless that dot is first or last\<close>
  "path_suffix p =
     (let name = path_name p; i = rfind (CHR ''.'') name
      in if 0 < i \<and> i < int (length name) - 1 then drop (nat i) name else [])"

definition lower_char :: "char \<Rightarrow> char" where
  "lower_char c =
     (if of_char (CHR ''A'') \<le> (of_char c :: nat) \<and> (of_char c :: nat) \<le> of_char (CHR ''Z'')
      then char_of (of_char c + (32 :: nat)) else c)"

definition lower :: "string \<Rightarrow> string" where
  \<comment> \<open>\<^verbatim>\<open>s.lower()\<close> on ASCII letters; other characters are kept\<close>
  "lower s = map lower_char s"

definition replace_qmark :: "string \<Rightarrow> string" where
  \<comment> \<open>\<^verbatim>\<open>s.replace("?", "_TEMPQMARK_")\<close>\<close>
  "replace_qmark s = concat (map (\<lambda>c. if c = CHR ''?'' then ''_TEMPQMARK_'' else [c]) s)"

definition os_path_join :: "string \<Rightarrow> string \<Rightarrow> string" where
  \<comment> \<open>\<^verbatim>\<open>os.path.join(a, b)\<close>\<close>
  "os_path_join a b =
     (if startswith_sep b then b
      else if a = [] \<or> endswith_sep a then a @ b
      else a @ ''/'' @ b)"

subsection \<open>The source-to-target mapping\<close>

text \<open>
  \<^verbatim>\<open>combine_paths\<close> joins a sub-path under a base and always ends the result with a
  slash (both arms of its conditional add one). \<open>vol_path_of\<close> is the first statement
  block of \<^verbatim>\<open>deassimilate_dir\<close>: it slices the directory path at the length of the share
  mount point. It reads no file system and no other argument of \<^verbatim>\<open>deassimilate_dir\<close>.
\<close>

definition combine_paths :: "string \<Rightarrow> string \<Rightarrow> string" where
  "combine_paths base_path sub_path =
     (let stripped_sub = lstrip_sep sub_path;
          combined = truediv (Path base_path) (Path stripped_sub);
          combined_with_slash =
            (if \<not> endswith_sep (str_path combined) then str_path combined @ ''/''
             else str_path combined @ ''/'')
      in combined_with_slash)"

definition vol_path_of :: "string \<Rightarrow> string \<Rightarrow> string \<Rightarrow> string \<Rightarrow> string" where
  "vol_path_of sharemnt share_root volmnt dirpath =
     (if length sharemnt \<noteq> length dirpath then
        (let temp_path = combine_paths volmnt share_root
         in combine_paths temp_path (drop (length sharemnt) dirpath))
      else combine_paths volmnt share_root)"

section \<open>Exceptions, stat records and file types\<close>

text \<open>
  Every \<^verbatim>\<open>raise\<close> of the code is a value of \<open>py_exception\<close>; a function that may
  raise returns \<open>py_exception + 'a\<close>, with \<open>Inl\<close> for the exception. All constructors
  stand for subclasses of \<^verbatim>\<open>Exception\<close>, the class the handlers of the code catch. An
  \<^verbatim>\<open>OSError\<close> carries its \<^verbatim>\<open>errno\<close> and its message.
\<close>

datatype py_exception =
    OSError nat string
  | ShutilError string
  | TypeError string
  | RuntimeError string
  | QueueError string

fun str_exc :: "py_exception \<Rightarrow> string" where
  \<comment> \<open>\<^verbatim>\<open>str(e)\<close>\<close>
  "str_exc (OSError n m) = m"
| "str_exc (ShutilError m) = m"
| "str_exc (TypeError m) = m"
| "str_exc (RuntimeError m) = m"
| "str_exc (QueueError m) = m"

definition PermissionError :: py_exception where
  "PermissionError = OSError 1 ''[Errno 1] Operation not permitted''"

definition FileNotFoundError :: py_exception where
  "FileNotFoundError = OSError 2 ''[Errno 2] No such file or directory''"

definition FileExistsError :: py_exception where
  "FileExistsError = OSError 17 ''[Errno 17] File exists''"

definition NotADirectoryError :: py_exception where
  "NotADirectoryError = OSError 20 ''[Errno 20] Not a directory''"

definition IsADirectoryError :: py_exception where
  "IsADirectoryError = OSError 21 ''[Errno 21] Is a directory''"

definition InvalidArgument :: py_exception where
  "InvalidArgument = OSError 22 ''[Errno 22] Invalid argument''"

definition DirectoryNotEmpty :: py_exception where
  "DirectoryNotEmpty = OSError 39 ''[Errno 39] Directory not empty''"

record stat =
  st_mode :: nat
  st_uid :: nat
  st_gid :: nat
  st_size :: nat
  st_atime :: int
  st_mtime :: int

text \<open>
  The macros of Python's \<^verbatim>\<open>stat\<close> module: the file type is bits 12 to 15 of the mode
  (octal mask 170000), the permission bits are the low twelve (octal mask 7777).
\<close>

definition S_IFMT :: "nat \<Rightarrow> nat" where
  "S_IFMT mode = (mode div 4096 mod 16) * 4096"

definition S_IMODE :: "nat \<Rightarrow> nat" where
  "S_IMODE mode = mode mod 4096"

definition S_IFIFO :: nat where "S_IFIFO = 4096"
definition S_IFCHR :: nat where "S_IFCHR = 8192"
definition S_IFDIR :: nat where "S_IFDIR = 16384"
definition S_IFBLK :: nat where "S_IFBLK = 24576"
definition S_IFREG :: nat where "S_IFREG = 32768"
definition S_IFLNK :: nat where "S_IFLNK = 40960"
definition S_IFSOCK :: nat where "S_IFSOCK = 49152"

definition S_ISREG :: "nat \<Rightarrow> bool" where "S_ISREG mode \<longleftrightarrow> S_IFMT mode = S_IFREG"
definition S_ISLNK :: "nat \<Rightarrow> bool" where "S_ISLNK mode \<longleftrightarrow> S_IFMT mode = S_IFLNK"
definition S_ISFIFO :: "nat \<Rightarrow> bool" where "S_ISFIFO mode \<longleftrightarrow> S_IFMT mode = S_IFIFO"
definition S_ISSOCK :: "nat \<Rightarrow> bool" where "S_ISSOCK mode \<longleftrightarrow> S_IFMT mode = S_IFSOCK"
definition S_ISBLK :: "nat \<Rightarrow> bool" where "S_ISBLK mode \<longleftrightarrow> S_IFMT mode = S_IFBLK"
definition S_ISCHR :: "nat \<Rightarrow> bool" where "S_ISCHR mode \<longleftrightarrow> S_IFMT mode = S_IFCHR"
definition S_ISDIR :: "nat \<Rightarrow> bool" where "S_ISDIR mode \<longleftrightarrow> S_IFMT mode = S_IFDIR"

datatype filetype = REGULAR | SYMLINK | FIFO | SOCK | DEVBLK | DEVCHR | DIR

definition get_filetype :: "stat \<Rightarrow> filetype option" where
  \<comment> \<open>\<open>None\<close> is Python's \<^verbatim>\<open>None\<close>: no test of the chain matched\<close>
  "get_filetype file_stat =
     (let file_stat_mode = st_mode file_stat in
      if S_ISREG file_stat_mode then Some REGULAR
      else if S_ISLNK file_stat_mode then Some SYMLINK
      else if S_ISFIFO file_stat_mode then Some FIFO
      else if S_ISSOCK file_stat_mode then Some SOCK
      else if S_ISBLK file_stat_mode then Some DEVBLK
      else if S_ISCHR file_stat_mode then Some DEVCHR
      else if S_ISDIR file_stat_mode then Some DIR
      else None)"

section \<open>The two mounted file systems\<close>

text \<open>
  The tool works on two mounted file systems: the source share, which it reads, and the
  target volume, on which it creates directories and links. The world holds one name
  space for each, and the lines written to the log. Each call of the code goes to the
  file system its path argument lies on: \<^verbatim>\<open>dirpath\<close> and the names joined under it are
  on the share; \<^verbatim>\<open>vol_path\<close>, the names joined under it and the placement paths joined
  under \<^verbatim>\<open>volmnt\<close> are on the volume.

  A name space maps a key, the list of the components of a path (headed by \<^verbatim>\<open>/\<close> for an
  absolute one), to the node of that name. A node holds what \<^verbatim>\<open>lstat\<close> returns, the
  target that \<^verbatim>\<open>readlink\<close> returns, and the placement document that the side channel of
  the source file system serves for it. The system calls below follow their POSIX
  descriptions on this name space, with these limits: \<^verbatim>\<open>..\<close> and symbolic links inside
  a path are not resolved, a hard link is a second name for an equal node, and new nodes
  are owned by user and group 0 with all times 0.
\<close>

record placement =
  inst_obs :: int
  inst_path :: string

record inode_info =
  instances :: "placement list option"
    \<comment> \<open>the value under the key \<^verbatim>\<open>instance\<close>; \<open>None\<close> when the document has no such key\<close>

record node =
  nstat :: stat
  ntarget :: string
  ninfo :: "inode_info option"

type_synonym key = "string list"
type_synonym fs = "key \<rightharpoonup> node"

datatype level = DEBUG | INFO | WARNING | ERROR

type_synonym logger = "string option"
  \<comment> \<open>\<open>None\<close> is \<^verbatim>\<open>logger is None\<close>; otherwise the name of the sink\<close>

record world =
  share :: fs
  vol :: fs
  logged :: "(level \<times> string) list"

definition emit :: "logger \<Rightarrow> level \<Rightarrow> string \<Rightarrow> world \<Rightarrow> world" where
  \<comment> \<open>\<^verbatim>\<open>if logger is not None: logger.<level>(msg)\<close>; messages are cut to their fixed text\<close>
  "emit logger lv msg w =
     (if logger \<noteq> None then w\<lparr>logged := logged w @ [(lv, msg)]\<rparr> else w)"

definition key_of :: "string \<Rightarrow> key" where
  "key_of p = (if startswith_sep p then [''/''] else []) @ components p"

definition mode_of :: "fs \<Rightarrow> key \<Rightarrow> nat option" where
  "mode_of f k = map_option (\<lambda>n. st_mode (nstat n)) (f k)"

definition isdir_key :: "fs \<Rightarrow> key \<Rightarrow> bool" where
  "isdir_key f k \<longleftrightarrow> (case f k of None \<Rightarrow> False | Some n \<Rightarrow> S_ISDIR (st_mode (nstat n)))"

definition parent_is_dir :: "fs \<Rightarrow> key \<Rightarrow> bool" where
  \<comment> \<open>the mount root and the working directory always exist\<close>
  "parent_is_dir f k \<longleftrightarrow>
     (let p = butlast k in p = [] \<or> p = [''/''] \<or> isdir_key f p)"

definition new_node :: "nat \<Rightarrow> nat \<Rightarrow> string \<Rightarrow> node" where
  "new_node mode sz tgt =
     \<lparr>nstat = \<lparr>st_mode = mode, st_uid = 0, st_gid = 0, st_size = sz, st_atime = 0, st_mtime = 0\<rparr>,
      ntarget = tgt, ninfo = None\<rparr>"

definition os_lstat :: "fs \<Rightarrow> string \<Rightarrow> py_exception + stat" where
  "os_lstat f p = (case f (key_of p) of None \<Rightarrow> Inl FileNotFoundError | Some n \<Rightarrow> Inr (nstat n))"

definition os_readlink :: "fs \<Rightarrow> string \<Rightarrow> py_exception + string" where
  "os_readlink f p =
     (case f (key_of p) of
        None \<Rightarrow> Inl FileNotFoundError
      | Some n \<Rightarrow> if S_ISLNK (st_mode (nstat n)) then Inr (ntarget n) else Inl InvalidArgument)"

definition os_path_isdir :: "fs \<Rightarrow> string \<Rightarrow> bool" where
  "os_path_isdir f p = isdir_key f (key_of p)"

definition os_path_exists :: "fs \<Rightarrow> string \<Rightarrow> bool" where
  "os_path_exists f p \<longleftrightarrow> f (key_of p) \<noteq> None"

definition os_symlink :: "string \<Rightarrow> string \<Rightarrow> fs \<Rightarrow> py_exception + fs" where
  "os_symlink tgt p f =
     (let k = key_of p in
      if f k \<noteq> None then Inl FileExistsError
      else if \<not> parent_is_dir f k then Inl FileNotFoundError
      else Inr (f(k \<mapsto> new_node (S_IFLNK + 511) (length tgt) tgt)))"

definition os_link :: "string \<Rightarrow> string \<Rightarrow> fs \<Rightarrow> py_exception + fs" where
  "os_link src dst f =
     (let ks = key_of src; kd = key_of dst in
      case f ks of
        None \<Rightarrow> Inl FileNotFoundError
      | Some n \<Rightarrow>
          if \<not> parent_is_dir f kd then Inl FileNotFoundError
          else if f kd \<noteq> None then Inl FileExistsError
          else if S_ISDIR (st_mode (nstat n)) then Inl PermissionError
          else Inr (f(kd \<mapsto> n)))"

definition os_mkdir_key :: "key \<Rightarrow> fs \<Rightarrow> py_exception + fs" where
  "os_mkdir_key k f =
     (if f k \<noteq> None then Inl FileExistsError
      else if \<not> parent_is_dir f k then Inl FileNotFoundError
      else Inr (f(k \<mapsto> new_node (S_IFDIR + 511) 0 [])))"

fun makedirs_keys :: "key list \<Rightarrow> fs \<Rightarrow> py_exception + fs" where
  \<comment> \<open>the ancestors of the target, shortest first, then the target itself\<close>
  "makedirs_keys [] f = Inr f"
| "makedirs_keys (k # ks) f =
     (if isdir_key f k then makedirs_keys ks f
      else if f k \<noteq> None then Inl (if ks = [] then FileExistsError else NotADirectoryError)
      else (case os_mkdir_key k f of
              Inl e \<Rightarrow> Inl e
            | Inr f' \<Rightarrow> makedirs_keys ks f'))"

definition proper_prefixes :: "key \<Rightarrow> key list" where
  \<comment> \<open>every directory that must exist for \<open>k\<close> to exist, but the roots\<close>
  "proper_prefixes k =
     filter (\<lambda>p. p \<noteq> [] \<and> p \<noteq> [''/'']) (map (\<lambda>n. take n k) [1..<Suc (length k)])"

definition os_makedirs :: "string \<Rightarrow> fs \<Rightarrow> py_exception + fs" where
  \<comment> \<open>\<^verbatim>\<open>os.makedirs(p, exist_ok=True)\<close>; a failing call creates nothing on a tree\<close>
  "os_makedirs p f = makedirs_keys (proper_prefixes (key_of p)) f"

definition os_lchown :: "string \<Rightarrow> nat \<Rightarrow> nat \<Rightarrow> fs \<Rightarrow> py_exception + fs" where
  "os_lchown p uid gid f =
     (case f (key_of p) of
        None \<Rightarrow> Inl FileNotFoundError
      | Some n \<Rightarrow> Inr (f(key_of p \<mapsto> n\<lparr>nstat := (nstat n)\<lparr>st_uid := uid, st_gid := gid\<rparr>\<rparr>)))"

definition os_chmod :: "string \<Rightarrow> nat \<Rightarrow> fs \<Rightarrow> py_exception + fs" where
  "os_chmod p mode f =
     (case f (key_of p) of
        None \<Rightarrow> Inl FileNotFoundError
      | Some n \<Rightarrow>
          Inr (f(key_of p \<mapsto>
                 n\<lparr>nstat := (nstat n)\<lparr>st_mode := S_IFMT (st_mode (nstat n)) + S_IMODE mode\<rparr>\<rparr>)))"

definition os_utime :: "string \<Rightarrow> int \<times> int \<Rightarrow> fs \<Rightarrow> py_exception + fs" where
  "os_utime p tms f =
     (case f (key_of p) of
        None \<Rightarrow> Inl FileNotFoundError
      | Some n \<Rightarrow>
          Inr (f(key_of p \<mapsto>
                 n\<lparr>nstat := (nstat n)\<lparr>st_atime := fst tms, st_mtime := snd tms\<rparr>\<rparr>)))"

subsection \<open>Renaming\<close>

text \<open>
  \<^verbatim>\<open>os.rename\<close> moves a node and everything below it to the new key and replaces what
  the new key named. Whether a directory is empty cannot be computed on this name space,
  so renaming one directory onto another is refused; \<^verbatim>\<open>shutil.move\<close> never asks for it,
  because it moves the source inside a destination that is a directory.
  When \<^verbatim>\<open>os.rename\<close> fails, \<^verbatim>\<open>shutil.move\<close> falls back to copying; on one file
  system the copy fails for the reason the rename did, and the error is passed on.
\<close>

definition rename_tree :: "key \<Rightarrow> key \<Rightarrow> fs \<Rightarrow> fs" where
  "rename_tree ks kd f =
     (\<lambda>k. if prefix kd k then f (ks @ drop (length kd) k)
          else if prefix ks k then None
          else f k)"

definition os_rename :: "string \<Rightarrow> string \<Rightarrow> fs \<Rightarrow> py_exception + fs" where
  "os_rename src dst f =
     (let ks = key_of src; kd = key_of dst in
      case f ks of
        None \<Rightarrow> Inl FileNotFoundError
      | Some n \<Rightarrow>
          if \<not> parent_is_dir f kd then Inl FileNotFoundError
          else if ks = kd then Inr f
          else if isdir_key f kd then
            Inl (if S_ISDIR (st_mode (nstat n)) then DirectoryNotEmpty else IsADirectoryError)
          else if S_ISDIR (st_mode (nstat n)) \<and> f kd \<noteq> None then Inl NotADirectoryError
          else if prefix ks kd then Inl InvalidArgument
          else Inr (rename_tree ks kd f))"

definition os_path_islink :: "fs \<Rightarrow> string \<Rightarrow> bool" where
  "os_path_islink f p \<longleftrightarrow>
     (case f (key_of p) of None \<Rightarrow> False | Some n \<Rightarrow> S_ISLNK (st_mode (nstat n)))"

definition basename :: "string \<Rightarrow> string" where
  \<comment> \<open>\<^verbatim>\<open>os.path.basename(p.rstrip("/"))\<close>, the helper of \<^verbatim>\<open>shutil.move\<close>\<close>
  "basename p = last (split_sep (rstrip_sep p))"

definition shutil_move :: "string \<Rightarrow> string \<Rightarrow> fs \<Rightarrow> py_exception + fs" where
  "shutil_move src dst f =
     (if os_path_isdir f dst then
        (if key_of src = key_of dst \<and> \<not> os_path_islink f src then os_rename src dst f
         else
           (let real_dst = os_path_join dst (basename src) in
            if os_path_exists f real_dst
            then Inl (ShutilError ''Destination path already exists'')
            else os_rename src real_dst f))
      else os_rename src dst f)"

subsection \<open>The side channel\<close>

text \<open>
  The source file system serves the placement document of a file when the file's path
  is opened with the selector \<^verbatim>\<open>?.attribute=inode_info\<close> appended. It takes the first
  question mark of the path as the start of the selector, which is why a name that holds
  one has to be renamed before the query. A file with no document cannot be opened.
\<close>

definition open_attribute :: "string \<Rightarrow> fs \<Rightarrow> py_exception + inode_info" where
  "open_attribute attr_path f =
     (let file = takeWhile (\<lambda>c. c \<noteq> CHR ''?'') attr_path;
          selector = dropWhile (\<lambda>c. c \<noteq> CHR ''?'') attr_path
      in if selector \<noteq> ''?.attribute=inode_info'' then Inl FileNotFoundError
         else (case f (key_of file) of
                 None \<Rightarrow> Inl FileNotFoundError
               | Some n \<Rightarrow> (case ninfo n of None \<Rightarrow> Inl FileNotFoundError | Some d \<Rightarrow> Inr d)))"

section \<open>DeassimilateProcess.py\<close>

definition temp_rename ::
  "string \<Rightarrow> (string \<Rightarrow> fs \<Rightarrow> py_exception + 'a) \<Rightarrow> fs \<Rightarrow> (py_exception + 'a) \<times> fs" where
  \<comment> \<open>\<open>func\<close> reads the file system and returns or raises; an exception of either
      \<^verbatim>\<open>shutil.move\<close> leaves the function at once\<close>
  "temp_rename path func f =
     (let path_obj = Path path in
      if CHR ''?'' \<notin> set (path_name path_obj) then (func (str_path path_obj) f, f)
      else
        (let temp_name = replace_qmark (path_name path_obj);
             temp_path = with_name path_obj temp_name
         in case shutil_move (str_path path_obj) (str_path temp_path) f of
              Inl e \<Rightarrow> (Inl e, f)
            | Inr f1 \<Rightarrow>
                (case func (str_path temp_path) f1 of
                   Inl e \<Rightarrow>
                     (case shutil_move (str_path temp_path) (str_path path_obj) f1 of
                        Inl e' \<Rightarrow> (Inl e', f1)
                      | Inr f2 \<Rightarrow> (Inl e, f2))
                 | Inr result \<Rightarrow>
                     (case shutil_move (str_path temp_path) (str_path path_obj) f1 of
                        Inl e' \<Rightarrow> (Inl e', f1)
                      | Inr f2 \<Rightarrow> (Inr result, f2)))))"

definition get_info :: "string \<Rightarrow> fs \<Rightarrow> py_exception + inode_info" where
  \<comment> \<open>the inner function \<^verbatim>\<open>_get_info\<close>\<close>
  "get_info path f = (let attr_path = path @ ''?.attribute=inode_info'' in open_attribute attr_path f)"

definition get_inode_info :: "string \<Rightarrow> fs \<Rightarrow> (py_exception + inode_info) \<times> fs" where
  "get_inode_info path f = temp_rename path get_info f"

definition filetype_name :: "filetype \<Rightarrow> string" where
  "filetype_name ft =
     (case ft of REGULAR \<Rightarrow> ''REGULAR'' | SYMLINK \<Rightarrow> ''SYMLINK'' | FIFO \<Rightarrow> ''FIFO''
      | SOCK \<Rightarrow> ''SOCK'' | DEVBLK \<Rightarrow> ''DEVBLK'' | DEVCHR \<Rightarrow> ''DEVCHR'' | DIR \<Rightarrow> ''DIR'')"

definition copy_file_attrs ::
  "string \<Rightarrow> string \<Rightarrow> filetype \<Rightarrow> stat \<Rightarrow> logger \<Rightarrow> world \<Rightarrow> (py_exception + unit) \<times> world" where
  \<comment> \<open>\<^verbatim>\<open>filetype in ("SYMLINK")\<close> has no tuple: it asks whether the name occurs inside the
      string \<^verbatim>\<open>SYMLINK\<close>\<close>
  "copy_file_attrs src dst ft st lg w =
     (let w1 = emit lg DEBUG ''os.lchown'' w in
      case os_lchown dst (st_uid st) (st_gid st) (vol w1) of
        Inl e \<Rightarrow> (Inl e, w1)
      | Inr v2 \<Rightarrow>
          (let w2 = w1\<lparr>vol := v2\<rparr>;
               file_permissions_mode = S_IMODE (st_mode st);
               r3 = (if ft = REGULAR \<or> ft = DIR then
                       (let w3 = emit lg DEBUG ''os.chmod'' w2 in
                        case os_chmod dst file_permissions_mode (vol w3) of
                          Inl e \<Rightarrow> (Inl e, w3)
                        | Inr v3 \<Rightarrow> (Inr (), w3\<lparr>vol := v3\<rparr>))
                     else if sublist (filetype_name ft) ''SYMLINK''
                     then (Inr (), emit lg DEBUG ''os.chmod not supported symlink'' w2)
                     else (Inr (), emit lg ERROR ''os.chmod not support for file type'' w2))
           in case r3 of
                (Inl e, w4) \<Rightarrow> (Inl e, w4)
              | (Inr _, w4) \<Rightarrow>
                  if ft = REGULAR \<or> ft = DIR then
                    (let w5 = emit lg DEBUG ''os.utime'' w4 in
                     case os_utime dst (st_atime st, st_mtime st) (vol w5) of
                       Inl e \<Rightarrow> (Inl e, w5)
                     | Inr v5 \<Rightarrow> (Inr (), w5\<lparr>vol := v5\<rparr>))
                  else (Inr (), emit lg DEBUG ''Filetype not supported for setting atime/mtime'' w4)))"

text \<open>
  The two \<^verbatim>\<open>try\<close> blocks around \<^verbatim>\<open>os.symlink\<close> (for the directory and for a file)
  differ in their messages only; \<open>try_symlink\<close> takes the messages as arguments. In each
  of them, and in the block around \<^verbatim>\<open>os.link\<close>, the \<^verbatim>\<open>raise e\<close> stands inside
  \<^verbatim>\<open>if logger is not None\<close>.
\<close>

definition try_symlink ::
  "logger \<Rightarrow> string \<Rightarrow> string \<Rightarrow> string \<Rightarrow> string \<Rightarrow> world \<Rightarrow> (py_exception + unit) \<times> world" where
  "try_symlink lg exists_msg error_msg symlinkdest dst w =
     (case os_symlink symlinkdest dst (vol w) of
        Inr v \<Rightarrow> (Inr (), w\<lparr>vol := v\<rparr>)
      | Inl e \<Rightarrow>
          (case e of
             OSError errno m \<Rightarrow>
               if errno = 17 then (Inr (), emit lg WARNING exists_msg w)
               else if lg \<noteq> None then (Inl e, emit lg ERROR error_msg w)
               else (Inr (), w)
           | _ \<Rightarrow> (Inl e, w)))"

definition try_link ::
  "logger \<Rightarrow> string \<Rightarrow> string \<Rightarrow> world \<Rightarrow> (py_exception + unit) \<times> world" where
  "try_link lg path_instance vol_full_fname w =
     (case os_link path_instance vol_full_fname (vol w) of
        Inr v \<Rightarrow> (Inr (), w\<lparr>vol := v\<rparr>)
      | Inl e \<Rightarrow>
          (case e of
             OSError errno m \<Rightarrow>
               if errno = 17 then (Inr (), emit lg ERROR ''File already exists, skipping, os.link'' w)
               else if lg \<noteq> None then (Inl e, emit lg INFO ''os.link error on file share'' w)
               else (Inr (), w)
           | _ \<Rightarrow> (Inl e, w)))"

record summary =
  directory :: string
  total_files :: nat
  extension_counts :: "string \<rightharpoonup> nat"
  total_size_bytes :: nat

type_synonym tally = "(string \<rightharpoonup> nat) \<times> nat"
  \<comment> \<open>the local variables \<^verbatim>\<open>extension_counts\<close> and \<^verbatim>\<open>total_size\<close>\<close>

definition regular_file ::
  "logger \<Rightarrow> string \<Rightarrow> int \<Rightarrow> string \<Rightarrow> string \<Rightarrow> world \<Rightarrow> (py_exception + unit) \<times> world" where
  \<comment> \<open>the branch \<^verbatim>\<open>filetype == "REGULAR"\<close>; each \<^verbatim>\<open>continue\<close> returns\<close>
  "regular_file lg volmnt volid share_full_fname vol_full_fname w =
     (let w1 = emit lg DEBUG ''os.lstat regular file with size'' w in
      case get_inode_info share_full_fname (share w1) of
        (Inl e, s') \<Rightarrow> (Inl e, w1\<lparr>share := s'\<rparr>)
      | (Inr inode_info, s') \<Rightarrow>
          (let w2 = w1\<lparr>share := s'\<rparr> in
           case instances inode_info of
             None \<Rightarrow> (Inr (), emit lg ERROR ''does not have an instance inode_info section. Skipping...'' w2)
           | Some insts \<Rightarrow>
               if length insts < 1
               then (Inr (), emit lg ERROR ''does not have an instance inode_info section. Skipping...'' w2)
               else
                 (case List.find (\<lambda>i. inst_obs i = volid) insts of
                    None \<Rightarrow> (Inr (), emit lg ERROR ''does not have an instance on needed volume id'' w2)
                  | Some i \<Rightarrow>
                      (let path_instance = os_path_join volmnt (drop 1 (inst_path i));
                           w3 = emit lg DEBUG ''os.link'' w2
                       in try_link lg path_instance vol_full_fname w3))))"

definition symlink_file ::
  "logger \<Rightarrow> string \<Rightarrow> string \<Rightarrow> stat \<Rightarrow> world \<Rightarrow> (py_exception + unit) \<times> world" where
  \<comment> \<open>the branch \<^verbatim>\<open>filetype == "SYMLINK"\<close>\<close>
  "symlink_file lg share_full_fname vol_full_fname file_stat w =
     (let w1 = emit lg DEBUG ''os.lstat'' w in
      case os_readlink (share w1) share_full_fname of
        Inl e \<Rightarrow> (Inl e, w1)
      | Inr symlinkdest \<Rightarrow>
          (let w2 = emit lg DEBUG ''os.readlink'' w1 in
           case try_symlink lg ''Symlink already exists, skipping, os.symlink failed''
                  ''os.symlink() error on file'' symlinkdest vol_full_fname w2 of
             (Inl e, w3) \<Rightarrow> (Inl e, w3)
           | (Inr _, w3) \<Rightarrow>
               (let w4 = emit lg DEBUG ''os.symlink'' w3 in
                copy_file_attrs share_full_fname vol_full_fname SYMLINK file_stat lg w4)))"

definition file_step ::
  "logger \<Rightarrow> string \<Rightarrow> string \<Rightarrow> string \<Rightarrow> int \<Rightarrow> string \<Rightarrow> tally \<Rightarrow> world
     \<Rightarrow> (py_exception + tally) \<times> world" where
  \<comment> \<open>one round of \<^verbatim>\<open>for fn in filenames\<close>\<close>
  "file_step lg dirpath vol_path volmnt volid fn acc w =
     (let share_full_fname = os_path_join dirpath fn;
          vol_full_fname = os_path_join vol_path fn;
          w1 = emit lg DEBUG ''vol_full_fname''
                 (emit lg DEBUG ''share_full_fname'' (emit lg DEBUG ''vol_path, filename'' w))
      in case os_lstat (share w1) share_full_fname of
           Inl e \<Rightarrow> (Inl e, w1)
         | Inr file_stat \<Rightarrow>
             (let ext = lower (path_suffix (Path share_full_fname));
                  extension_counts' =
                    (fst acc)(ext \<mapsto> (case fst acc ext of None \<Rightarrow> 0 | Some c \<Rightarrow> c) + 1);
                  total_size' = snd acc + st_size file_stat;
                  filetype = get_filetype file_stat;
                  r = (if filetype = Some REGULAR
                       then regular_file lg volmnt volid share_full_fname vol_full_fname w1
                       else if filetype = Some SYMLINK
                       then symlink_file lg share_full_fname vol_full_fname file_stat w1
                       else (Inr (), w1))
              in case r of
                   (Inl e, w2) \<Rightarrow> (Inl e, w2)
                 | (Inr _, w2) \<Rightarrow> (Inr (extension_counts', total_size'), w2)))"

fun files_loop ::
  "logger \<Rightarrow> string \<Rightarrow> string \<Rightarrow> string \<Rightarrow> int \<Rightarrow> string list \<Rightarrow> tally \<Rightarrow> world
     \<Rightarrow> (py_exception + tally) \<times> world" where
  "files_loop lg dirpath vol_path volmnt volid [] acc w = (Inr acc, w)"
| "files_loop lg dirpath vol_path volmnt volid (fn # fns) acc w =
     (case file_step lg dirpath vol_path volmnt volid fn acc w of
        (Inl e, w') \<Rightarrow> (Inl e, w')
      | (Inr acc', w') \<Rightarrow> files_loop lg dirpath vol_path volmnt volid fns acc' w')"

definition symlink_dir ::
  "logger \<Rightarrow> string \<Rightarrow> string \<Rightarrow> stat \<Rightarrow> world \<Rightarrow> (py_exception + unit) \<times> world" where
  \<comment> \<open>the branch \<^verbatim>\<open>dir_type == "SYMLINK"\<close>\<close>
  "symlink_dir lg dirpath vol_path0 dir_stat w =
     (let w1 = emit lg INFO ''Directory symlink detected'' w;
          vol_path = (if endswith_sep vol_path0 then str_path (Path (rstrip_sep vol_path0))
                      else vol_path0)
      in case os_readlink (share w1) dirpath of
           Inl e \<Rightarrow> (Inl e, w1)
         | Inr symlinkdest \<Rightarrow>
             (let w2 = emit lg DEBUG ''os.readlink'' w1 in
              case try_symlink lg ''Symlink already exists!'' ''Symlink error'' symlinkdest vol_path w2 of
                (Inl e, w3) \<Rightarrow> (Inl e, w3)
              | (Inr _, w3) \<Rightarrow>
                  (case copy_file_attrs dirpath vol_path SYMLINK dir_stat lg w3 of
                     (Inl e, w4) \<Rightarrow> (Inl e, w4)
                   | (Inr _, w4) \<Rightarrow> (Inr (), emit lg INFO ''Symlink created'' w4))))"

definition plain_dir ::
  "logger \<Rightarrow> string \<Rightarrow> string \<Rightarrow> string \<Rightarrow> int \<Rightarrow> stat \<Rightarrow> string list \<Rightarrow> world
     \<Rightarrow> (py_exception + tally) \<times> world" where
  \<comment> \<open>the \<^verbatim>\<open>else\<close> branch: an \<^verbatim>\<open>OSError\<close> of \<^verbatim>\<open>os.makedirs\<close> is logged, not raised\<close>
  "plain_dir lg dirpath vol_path volmnt volid dir_stat filenames w =
     (let w1 = emit lg DEBUG ''From dirpath to vol_path'' w;
          w2 = (if \<not> os_path_isdir (vol w1) vol_path then
                  (let w1' = emit lg DEBUG ''os.makedirs'' w1 in
                   case os_makedirs vol_path (vol w1') of
                     Inl e \<Rightarrow> emit lg ERROR ''os.makedirs error'' w1'
                   | Inr v \<Rightarrow> w1'\<lparr>vol := v\<rparr>)
                else if os_path_isdir (vol w1) vol_path
                then emit lg DEBUG ''Directory already exists'' w1
                else w1)
      in case copy_file_attrs dirpath vol_path DIR dir_stat lg w2 of
           (Inl e, w3) \<Rightarrow> (Inl e, w3)
         | (Inr _, w3) \<Rightarrow>
             if length filenames > 0
             then files_loop lg dirpath vol_path volmnt volid filenames (Map.empty, 0) w3
             else (Inr (Map.empty, 0), w3))"

definition deassimilate_dir ::
  "string \<Rightarrow> string list \<Rightarrow> logger \<Rightarrow> string \<Rightarrow> string \<Rightarrow> string \<Rightarrow> int \<Rightarrow> world
     \<Rightarrow> (py_exception + summary) \<times> world" where
  "deassimilate_dir dirpath filenames lg sharemnt share_root volmnt volid w =
     (let w1 = emit lg DEBUG ''volmnt, volid''
                 (emit lg DEBUG ''sharemnt, share_root'' (emit lg DEBUG ''deassimilate'' w));
          vol_path = vol_path_of sharemnt share_root volmnt dirpath
      in case os_lstat (share w1) dirpath of
           Inl e \<Rightarrow> (Inl e, w1)
         | Inr dir_stat \<Rightarrow>
             (let dir_type = get_filetype dir_stat;
                  r = (if dir_type = Some SYMLINK then
                         (case symlink_dir lg dirpath vol_path dir_stat w1 of
                            (Inl e, w2) \<Rightarrow> (Inl e, w2)
                          | (Inr _, w2) \<Rightarrow> (Inr (Map.empty, 0), w2))
                       else plain_dir lg dirpath vol_path volmnt volid dir_stat filenames w1)
              in case r of
                   (Inl e, w2) \<Rightarrow> (Inl e, w2)
                 | (Inr (extension_counts', total_size), w2) \<Rightarrow>
                     (Inr \<lparr>directory = dirpath, total_files = length filenames,
                           extension_counts = extension_counts',
                           total_size_bytes = total_size\<rparr>, w2)))"

section \<open>DirectoryWalker.py\<close>

subsection \<open>Results and the listing of a directory\<close>

record FileResult =
  filepath :: string
  fr_status :: string
  fr_result :: "unit option"
  fr_error :: "string option"

record DirectoryResult =
  dr_directory :: string
  status :: string
  file_results :: "FileResult list"
  processing_result :: "summary option"
  error :: "string option"

text \<open>
  \<^verbatim>\<open>os.scandir\<close> is a parameter of the model: at a world and a path it raises or
  yields the entries. An entry carries the answers the code asks of it:
  \<^verbatim>\<open>is_file(follow_symlinks=False)\<close>, \<^verbatim>\<open>is_symlink()\<close>, and what
  \<^verbatim>\<open>os.path.isfile(os.path.realpath(entry.path))\<close> returns or raises.
\<close>

record dirent =
  d_name :: string
  d_is_file :: bool
  d_is_symlink :: bool
  d_target_isfile :: "py_exception + bool"

type_synonym scandir = "world \<Rightarrow> string \<Rightarrow> py_exception + dirent list"

fun scan_entries ::
  "logger \<Rightarrow> dirent list \<Rightarrow> string list \<Rightarrow> world \<Rightarrow> (py_exception + string list) \<times> world" where
  \<comment> \<open>\<^verbatim>\<open>for entry in entries\<close>; the handler catches \<^verbatim>\<open>OSError\<close> and \<^verbatim>\<open>RuntimeError\<close>\<close>
  "scan_entries lg [] filenames w = (Inr filenames, w)"
| "scan_entries lg (entry # entries) filenames w =
     (if d_is_file entry then scan_entries lg entries (filenames @ [d_name entry]) w
      else if d_is_symlink entry then
        (case d_target_isfile entry of
           Inr b \<Rightarrow>
             scan_entries lg entries (if b then filenames @ [d_name entry] else filenames) w
         | Inl e \<Rightarrow>
             (case e of
                OSError n m \<Rightarrow>
                  scan_entries lg entries filenames (emit lg DEBUG ''Broken symlink or permission'' w)
              | RuntimeError m \<Rightarrow>
                  scan_entries lg entries filenames (emit lg DEBUG ''Broken symlink or permission'' w)
              | _ \<Rightarrow> (Inl e, w)))
      else scan_entries lg entries filenames w)"

definition get_files_only ::
  "scandir \<Rightarrow> string \<Rightarrow> logger \<Rightarrow> world \<Rightarrow> (py_exception + string list) \<times> world" where
  \<comment> \<open>\<^verbatim>\<open>_get_files_only\<close>\<close>
  "get_files_only sc dirpath lg w =
     (case sc w dirpath of
        Inl e \<Rightarrow> (Inl e, w)
      | Inr entries \<Rightarrow>
          (case scan_entries lg entries [] w of
             (Inl e, w1) \<Rightarrow> (Inl e, w1)
           | (Inr filenames, w1) \<Rightarrow> (Inr filenames, emit lg DEBUG ''Found files'' w1)))"

subsection \<open>The worker\<close>

text \<open>
  A task is a directory with a list of file names (always empty: the worker lists the
  directory itself); \<open>None\<close> is the poison pill. \<^verbatim>\<open>task_queue.get(timeout=1)\<close> returns
  an item, raises \<^verbatim>\<open>queue.Empty\<close>, or raises something else. The worker runs against the
  list of the outcomes of its successive \<^verbatim>\<open>get\<close> calls; when the list ends before a
  poison pill the worker is still waiting, and the flag of the result is \<open>False\<close>.
  The processor function takes the keyword arguments already bound. Putting on the result
  queue does not fail.
\<close>

type_synonym task = "(string \<times> string list) option"

datatype queue_get = Item task | QueueEmpty | GetRaises py_exception

type_synonym processor =
  "string \<Rightarrow> string list \<Rightarrow> logger \<Rightarrow> world \<Rightarrow> (py_exception + summary) \<times> world"

definition unknown_error :: "py_exception \<Rightarrow> DirectoryResult" where
  \<comment> \<open>what the outer handler of the loop posts\<close>
  "unknown_error e =
     \<lparr>dr_directory = ''unknown'', status = ''error'', file_results = [],
      processing_result = None, error = Some (str_exc e)\<rparr>"

definition process_task ::
  "processor \<Rightarrow> scandir \<Rightarrow> logger \<Rightarrow> string \<times> string list \<Rightarrow> world \<Rightarrow> DirectoryResult \<times> world" where
  \<comment> \<open>the body of the loop for a task that is not the pill, up to \<^verbatim>\<open>result_queue.put\<close>\<close>
  "process_task processor_func sc lg tsk w =
     (case tsk of (directory', filenames0) \<Rightarrow>
        (let w1 = emit lg DEBUG ''queue'' w in
         case get_files_only sc directory' lg w1 of
           (Inl e, w2) \<Rightarrow> (unknown_error e, emit lg DEBUG ''Received queue error'' w2)
         | (Inr filenames, w2) \<Rightarrow>
             (let file_paths = map (\<lambda>filename. str_path (truediv (Path directory') (Path filename))) filenames
              in case processor_func directory' filenames lg w2 of
                   (Inl e, w3) \<Rightarrow>
                     (\<lparr>dr_directory = directory', status = ''error'', file_results = [],
                       processing_result = None, error = Some (str_exc e)\<rparr>, w3)
                 | (Inr result, w3) \<Rightarrow>
                     (\<lparr>dr_directory = directory', status = ''success'',
                       file_results =
                         map (\<lambda>file_path. \<lparr>filepath = file_path, fr_status = ''success'',
                                            fr_result = None, fr_error = None\<rparr>) file_paths,
                       processing_result = Some result, error = None\<rparr>,
                      emit lg DEBUG ''Result'' w3))))"

fun worker_loop ::
  "processor \<Rightarrow> scandir \<Rightarrow> logger \<Rightarrow> queue_get list \<Rightarrow> world \<Rightarrow> DirectoryResult list
     \<Rightarrow> DirectoryResult list \<times> world \<times> bool" where
  \<comment> \<open>\<^verbatim>\<open>while True\<close>; the last argument is the result queue\<close>
  "worker_loop processor_func sc lg [] w result_queue = (result_queue, w, False)"
| "worker_loop processor_func sc lg (g # gs) w result_queue =
     (let w1 = emit lg DEBUG ''Waiting to take item off queue'' w in
      case g of
        QueueEmpty \<Rightarrow> worker_loop processor_func sc lg gs w1 result_queue
      | GetRaises e \<Rightarrow>
          worker_loop processor_func sc lg gs (emit lg DEBUG ''Received queue error'' w1)
            (result_queue @ [unknown_error e])
      | Item None \<Rightarrow> (result_queue, emit lg DEBUG ''Poison pill received'' w1, True)
      | Item (Some tsk) \<Rightarrow>
          (case process_task processor_func sc lg tsk w1 of
             (dir_result, w2) \<Rightarrow>
               worker_loop processor_func sc lg gs w2 (result_queue @ [dir_result])))"

definition worker_function ::
  "queue_get list \<Rightarrow> DirectoryResult list \<Rightarrow> processor \<Rightarrow> scandir \<Rightarrow> bool \<Rightarrow> world
     \<Rightarrow> DirectoryResult list \<times> world \<times> bool" where
  \<comment> \<open>\<^verbatim>\<open>_worker_function\<close>: the private logger exists when \<^verbatim>\<open>need_logger\<close> is set\<close>
  "worker_function task_queue result_queue processor_func sc need_logger w =
     (let lg = (if need_logger then Some ''DirectoryWalker-pid.log'' else None)
      in worker_loop processor_func sc lg task_queue w result_queue)"

fun dequeued :: "queue_get list \<Rightarrow> (py_exception + string \<times> string list) list" where
  \<comment> \<open>what the \<^verbatim>\<open>get\<close> calls hand to the worker before the first poison pill: a task, or
      an exception that is not \<^verbatim>\<open>queue.Empty\<close>\<close>
  "dequeued [] = []"
| "dequeued (QueueEmpty # gs) = dequeued gs"
| "dequeued (GetRaises e # gs) = Inl e # dequeued gs"
| "dequeued (Item None # gs) = []"
| "dequeued (Item (Some tsk) # gs) = Inr tsk # dequeued gs"

subsection \<open>The scheduler\<close>

text \<open>
  \<^verbatim>\<open>walk_directories\<close> is run against the list of directories that \<^verbatim>\<open>os.walk\<close> yields
  and against the answers of \<^verbatim>\<open>is_alive\<close>: \<open>alive k p\<close> is the answer of worker \<open>p\<close> at
  the \<open>k\<close>-th check. The scheduler state records every item put on the task queue, the
  workers joined, and the log. Putting on the task queue does not fail; an interrupt from
  the keyboard arrives from outside and is not part of the run.
\<close>

record scheduler =
  task_queue :: "task list"
  joined :: "nat list"
  sched_log :: "(level \<times> string) list"

datatype walk_outcome = Aborted | Completed

definition slog :: "level \<Rightarrow> string \<Rightarrow> scheduler \<Rightarrow> scheduler" where
  "slog lv msg s = s\<lparr>sched_log := sched_log s @ [(lv, msg)]\<rparr>"

definition put_task :: "task \<Rightarrow> scheduler \<Rightarrow> scheduler" where
  "put_task t s = s\<lparr>task_queue := task_queue s @ [t]\<rparr>"

definition join_all :: "nat list \<Rightarrow> scheduler \<Rightarrow> scheduler" where
  "join_all workers s = s\<lparr>joined := joined s @ workers\<rparr>"

fun walk_loop ::
  "(nat \<Rightarrow> nat \<Rightarrow> bool) \<Rightarrow> nat list \<Rightarrow> nat \<Rightarrow> string list \<Rightarrow> scheduler \<Rightarrow> walk_outcome \<times> scheduler" where
  \<comment> \<open>\<^verbatim>\<open>for dirpath, dirnames, filenames in os.walk(root_path)\<close>\<close>
  "walk_loop alive workers k [] s = (Completed, s)"
| "walk_loop alive workers k (dirpath # rest) s =
     (let s1 = put_task (Some (str_path (Path dirpath), []))
                 (slog DEBUG ''Putting work on queue for dir'' s)
      in if \<not> list_ex (alive k) workers then
           (Aborted,
            slog ERROR ''Workers are cleaned up. Aborting!''
              (join_all workers (slog ERROR ''All the workers are dead!'' s1)))
         else walk_loop alive workers (Suc k) rest s1)"

definition walk_directories ::
  "nat \<Rightarrow> (nat \<Rightarrow> nat \<Rightarrow> bool) \<Rightarrow> string list \<Rightarrow> scheduler \<Rightarrow> walk_outcome \<times> scheduler" where
  "walk_directories max_processes alive walk s =
     (let workers = [0..<max_processes];
          s1 = slog DEBUG ''Starting processes''
                 (slog DEBUG ''Creating multiprocessing structures''
                    (slog INFO ''Starting directory walk'' s))
      in case walk_loop alive workers 0 walk s1 of
           (Aborted, s2) \<Rightarrow> (Aborted, s2)
         | (Completed, s2) \<Rightarrow>
             (let s3 = fold (\<lambda>_. put_task None) workers s2;
                  s4 = join_all workers (slog DEBUG ''Waiting for worker processes to finish'' s3)
              in (Completed, slog DEBUG ''Work processes are finished'' s4)))"

subsection \<open>Constructing the walker\<close>

text \<open>
  A call with keyword arguments raises \<^verbatim>\<open>TypeError\<close> at the first keyword the callee
  does not declare. \<^verbatim>\<open>DefaultResultProcessor.__init__\<close> declares \<^verbatim>\<open>logger\<close> only.
\<close>

datatype py_arg = BoolArg bool | LoggerArg logger

definition bind_keywords :: "string list \<Rightarrow> (string \<times> py_arg) list \<Rightarrow> py_exception + unit" where
  "bind_keywords params kwargs =
     (case filter (\<lambda>k. k \<notin> set params) (map fst kwargs) of
        [] \<Rightarrow> Inr ()
      | k # _ \<Rightarrow> Inl (TypeError (''__init__() got an unexpected keyword argument '' @ k)))"

record counters =
  total_directories :: nat
  rp_total_files :: nat
  rp_total_size :: nat
  rp_logger :: logger

datatype result_processor = DefaultRP counters | CustomRP counters

definition DefaultResultProcessor_init :: "(string \<times> py_arg) list \<Rightarrow> py_exception + result_processor" where
  "DefaultResultProcessor_init kwargs =
     (case bind_keywords [''logger''] kwargs of
        Inl e \<Rightarrow> Inl e
      | Inr _ \<Rightarrow>
          Inr (DefaultRP \<lparr>total_directories = 0, rp_total_files = 0, rp_total_size = 0,
                          rp_logger = (case map_of kwargs ''logger'' of
                                         Some (LoggerArg l) \<Rightarrow> l | _ \<Rightarrow> None)\<rparr>))"

record walker =
  max_processes :: nat
  walker_name :: string
  walker_logger :: logger
  walker_result_processor :: result_processor

definition DirectoryWalker_init ::
  "nat \<Rightarrow> string \<Rightarrow> logger \<Rightarrow> result_processor option \<Rightarrow> py_exception + walker" where
  \<comment> \<open>\<^verbatim>\<open>DirectoryWalker.__init__\<close>; the fallback passes the parameter \<^verbatim>\<open>logger\<close>, not
      \<^verbatim>\<open>self.logger\<close>. Serialising the processor function and creating the queues
      come after and do not fail.\<close>
  "DirectoryWalker_init max_procs name lg result_processor =
     (let self_logger = (if lg = None then Some name else lg) in
      case (case result_processor of
              Some rp \<Rightarrow> Inr rp
            | None \<Rightarrow>
                DefaultResultProcessor_init
                  [(''process_results'', BoolArg False), (''logger'', LoggerArg lg)]) of
        Inl e \<Rightarrow> Inl e
      | Inr rp \<Rightarrow>
          Inr \<lparr>max_processes = max_procs, walker_name = name, walker_logger = self_logger,
               walker_result_processor = rp\<rparr>)"

section \<open>Notions used in the statements\<close>

definition clean :: "string list \<Rightarrow> bool" where
  \<comment> \<open>a list of path components as pathlib keeps them\<close>
  "clean ps \<longleftrightarrow> (\<forall>p \<in> set ps. p \<noteq> [] \<and> p \<noteq> ''.'' \<and> CHR ''/'' \<notin> set p)"

definition answers ::
  "processor \<Rightarrow> scandir \<Rightarrow> logger \<Rightarrow> py_exception + string \<times> string list \<Rightarrow> DirectoryResult \<Rightarrow> bool" where
  \<comment> \<open>the result that the worker posts for what a \<^verbatim>\<open>get\<close> handed to it\<close>
  "answers pf sc lg src res \<longleftrightarrow>
     (case src of
        Inl e \<Rightarrow> res = unknown_error e
      | Inr tsk \<Rightarrow> (\<exists>w. res = fst (process_task pf sc lg tsk w)))"

text \<open>A processor function and a directory listing for the examples of the worker.\<close>

definition demo_summary :: summary where
  "demo_summary = \<lparr>directory = ''/good'', total_files = 1, extension_counts = Map.empty,
                    total_size_bytes = 0\<rparr>"

definition demo_processor :: processor where
  "demo_processor d names lg w =
     (if d = ''/bad'' then (Inl (RuntimeError ''boom''), w) else (Inr demo_summary, w))"

definition demo_scandir :: scandir where
  "demo_scandir w d =
     Inr [\<lparr>d_name = ''a.txt'', d_is_file = True, d_is_symlink = False, d_target_isfile = Inr True\<rparr>]"

definition demo_world :: world where
  "demo_world = \<lparr>share = Map.empty, vol = Map.empty, logged = []\<rparr>"

text \<open>The key under which an entry is counted, the size \<^verbatim>\<open>lstat\<close> reports for a path, and
  whether the final name of a path holds the sentinel.\<close>

definition ext_of :: "string \<Rightarrow> string \<Rightarrow> string" where
  "ext_of dirpath fn = lower (path_suffix (Path (os_path_join dirpath fn)))"

definition lstat_size :: "fs \<Rightarrow> string \<Rightarrow> nat" where
  "lstat_size f p = (case os_lstat f p of Inl e \<Rightarrow> 0 | Inr st \<Rightarrow> st_size st)"

definition has_qmark :: "string \<Rightarrow> bool" where
  "has_qmark p \<longleftrightarrow> CHR ''?'' \<in> set (path_name (Path p))"

section \<open>What the steps leave unchanged\<close>

lemma vol_emit [simp]: "vol (emit lg lv msg w) = vol w"
  by (simp add: emit_def)

lemma share_emit [simp]: "share (emit lg lv msg w) = share w"
  by (simp add: emit_def)

lemma emit_None [simp]: "emit None lv msg w = w"
  by (simp add: emit_def)

lemma logged_emit: "logged (emit lg lv msg w) = logged w @ (if lg \<noteq> None then [(lv, msg)] else [])"
  by (simp add: emit_def)

lemma sublist_symlink: "sublist (filetype_name ft) ''SYMLINK'' \<longleftrightarrow> ft = SYMLINK"
  by (cases ft) (simp_all add: filetype_name_def sublist_code prefix_code)

lemma share_copy_file_attrs: "share (snd (copy_file_attrs src dst ft st lg w)) = share w"
  by (simp add: copy_file_attrs_def Let_def split: sum.splits prod.splits)

lemma share_try_link: "share (snd (try_link lg pi dst w)) = share w"
  by (simp add: try_link_def split: sum.splits py_exception.splits)

lemma share_try_symlink: "share (snd (try_symlink lg m1 m2 tgt dst w)) = share w"
  by (simp add: try_symlink_def split: sum.splits py_exception.splits)

lemma temp_rename_no_qmark: "\<not> has_qmark p \<Longrightarrow> snd (temp_rename p func f) = f"
  by (simp add: temp_rename_def has_qmark_def Let_def)

lemma share_regular_file:
  "\<not> has_qmark p \<Longrightarrow> share (snd (regular_file lg vm vid p dst w)) = share w"
  using temp_rename_no_qmark [of p get_info "share w"]
  by (auto simp add: regular_file_def get_inode_info_def Let_def share_try_link
        split: sum.splits prod.splits option.splits)

lemma share_symlink_file: "share (snd (symlink_file lg p dst st w)) = share w"
proof (cases "os_readlink (share w) p")
  case (Inl e)
  then show ?thesis by (simp add: symlink_file_def Let_def)
next
  case (Inr tgt)
  let ?w2 = "emit lg DEBUG ''os.readlink'' (emit lg DEBUG ''os.lstat'' w)"
  obtain r w3 where ts: "try_symlink lg ''Symlink already exists, skipping, os.symlink failed''
                  ''os.symlink() error on file'' tgt dst ?w2 = (r, w3)"
    by (cases "try_symlink lg ''Symlink already exists, skipping, os.symlink failed''
                  ''os.symlink() error on file'' tgt dst ?w2")
  have s3: "share w3 = share w"
    using share_try_symlink [of lg "''Symlink already exists, skipping, os.symlink failed''"
            "''os.symlink() error on file''" tgt dst ?w2] ts by simp
  show ?thesis using Inr ts s3
    by (cases r) (simp_all add: symlink_file_def Let_def share_copy_file_attrs)
qed

lemma file_step_unfold:
  "file_step lg dp vp vm vid fn acc w =
     (case os_lstat (share w) (os_path_join dp fn) of
        Inl e \<Rightarrow> (Inl e, emit lg DEBUG ''vol_full_fname''
                 (emit lg DEBUG ''share_full_fname'' (emit lg DEBUG ''vol_path, filename'' w)))
      | Inr st \<Rightarrow>
          (case (if get_filetype st = Some REGULAR
                 then regular_file lg vm vid (os_path_join dp fn) (os_path_join vp fn)
                        (emit lg DEBUG ''vol_full_fname''
                          (emit lg DEBUG ''share_full_fname'' (emit lg DEBUG ''vol_path, filename'' w)))
                 else if get_filetype st = Some SYMLINK
                 then symlink_file lg (os_path_join dp fn) (os_path_join vp fn) st
                        (emit lg DEBUG ''vol_full_fname''
                          (emit lg DEBUG ''share_full_fname'' (emit lg DEBUG ''vol_path, filename'' w)))
                 else (Inr (), emit lg DEBUG ''vol_full_fname''
                          (emit lg DEBUG ''share_full_fname'' (emit lg DEBUG ''vol_path, filename'' w)))) of
             (Inl e, w2) \<Rightarrow> (Inl e, w2)
           | (Inr u, w2) \<Rightarrow>
               (Inr ((fst acc)(ext_of dp fn \<mapsto>
                        (case fst acc (ext_of dp fn) of None \<Rightarrow> 0 | Some c \<Rightarrow> c) + 1),
                     snd acc + st_size st), w2)))"
  unfolding file_step_def Let_def ext_of_def share_emit by (rule refl)

lemma file_step_Inr:
  assumes "file_step lg dp vp vm vid fn acc w = (Inr acc', w')"
  shows "\<exists>st. os_lstat (share w) (os_path_join dp fn) = Inr st
      \<and> acc' = ((fst acc)(ext_of dp fn \<mapsto> (case fst acc (ext_of dp fn) of None \<Rightarrow> 0 | Some c \<Rightarrow> c) + 1),
                snd acc + st_size st)"
proof (cases "os_lstat (share w) (os_path_join dp fn)")
  case (Inl e)
  with assms show ?thesis by (simp add: file_step_unfold)
next
  case (Inr st)
  with assms show ?thesis
    by (simp add: file_step_unfold split: prod.splits sum.splits)
qed

lemma share_file_step:
  assumes "\<not> has_qmark (os_path_join dp fn)"
  shows "share (snd (file_step lg dp vp vm vid fn acc w)) = share w"
proof (cases "os_lstat (share w) (os_path_join dp fn)")
  case (Inl e)
  then show ?thesis by (simp add: file_step_unfold)
next
  case (Inr st)
  let ?w1 = "emit lg DEBUG ''vol_full_fname''
                          (emit lg DEBUG ''share_full_fname'' (emit lg DEBUG ''vol_path, filename'' w))"
  let ?r = "(if get_filetype st = Some REGULAR
                 then regular_file lg vm vid (os_path_join dp fn) (os_path_join vp fn) ?w1
                 else if get_filetype st = Some SYMLINK
                 then symlink_file lg (os_path_join dp fn) (os_path_join vp fn) st ?w1
                 else (Inr (), ?w1))"
  have "share (snd ?r) = share w"
    using share_regular_file [OF assms, of lg vm vid "os_path_join vp fn" ?w1]
          share_symlink_file [of lg "os_path_join dp fn" "os_path_join vp fn" st ?w1]
    by simp
  then show ?thesis using Inr
    by (cases ?r) (simp add: file_step_unfold split: sum.splits)
qed

section \<open>Properties of the path mapping\<close>

lemma split_sep_append_sep:
  "CHR ''/'' \<notin> set p \<Longrightarrow> split_sep (p @ CHR ''/'' # rest) = p # split_sep rest"
  by (induction p) (auto split: list.splits)

lemma split_sep_fields: "x \<in> set (split_sep s) \<Longrightarrow> CHR ''/'' \<notin> set x"
  by (induction s arbitrary: x) (auto split: list.splits if_splits)

lemma clean_components: "clean (components s)"
  by (auto simp: clean_def components_def dest: split_sep_fields)

lemma clean_append: "clean ps \<Longrightarrow> clean qs \<Longrightarrow> clean (ps @ qs)"
  by (auto simp: clean_def)

lemma components_join_slash: "clean ps \<Longrightarrow> components (join_sep ps @ ''/'') = ps"
proof (induction ps rule: join_sep.induct)
  case 1
  then show ?case by (simp add: components_def)
next
  case (2 p)
  then show ?case by (simp add: components_def clean_def split_sep_append_sep)
next
  case (3 p q ps)
  then show ?case by (simp add: components_def clean_def split_sep_append_sep)
qed

lemma components_dot_slash: "components ''./'' = []"
  by (simp add: components_def)

lemma components_Nil: "components [] = []"
  by (simp add: components_def)

lemma components_sep_cons: "components (CHR ''/'' # s) = components s"
  by (simp add: components_def)

lemma components_lstrip: "components (lstrip_sep s) = components s"
  by (induction s) (auto simp: lstrip_sep_def components_sep_cons)

lemma parts_Path: "parts (Path s) = components s"
  by (auto simp: Path_def splitroot_def components_lstrip Let_def split: prod.splits)

lemma root_Path_cases: "root (Path s) = [] \<or> root (Path s) = ''/'' \<or> root (Path s) = ''//''"
  by (auto simp: Path_def splitroot_def Let_def)

lemma root_Path_abs: "root (Path s) \<noteq> [] \<longleftrightarrow> startswith_sep s"
  by (auto simp: Path_def splitroot_def Let_def)

lemma startswith_lstrip: "\<not> startswith_sep (lstrip_sep s)"
  by (induction s) (auto simp: startswith_sep_def lstrip_sep_def split: list.splits)

lemma root_Path_lstrip: "root (Path (lstrip_sep s)) = []"
  using root_Path_abs [of "lstrip_sep s"] startswith_lstrip [of s] by blast

lemma combine_paths_eq:
  "combine_paths b s =
     str_path \<lparr>root = root (Path b), parts = components b @ components s\<rparr> @ ''/''"
  by (simp add: combine_paths_def truediv_def root_Path_lstrip parts_Path components_lstrip)

lemma components_combine: "components (combine_paths b s) = components b @ components s"
proof -
  let ?ps = "components b @ components s"
  have cl: "clean ?ps" by (simp add: clean_append clean_components)
  have j: "components (join_sep ?ps @ ''/'') = ?ps" by (rule components_join_slash [OF cl])
  consider "root (Path b) = []" "?ps = []" | "root (Path b) = []" "?ps \<noteq> []"
    | "root (Path b) = ''/''" | "root (Path b) = ''//''"
    using root_Path_cases [of b] by blast
  then show ?thesis
  proof cases
    case 1
    then show ?thesis by (simp add: combine_paths_eq str_path_def components_dot_slash)
  next
    case 2
    then show ?thesis using j by (auto simp add: combine_paths_eq str_path_def)
  next
    case 3
    then show ?thesis using j by (simp add: combine_paths_eq str_path_def components_sep_cons)
  next
    case 4
    then show ?thesis using j by (simp add: combine_paths_eq str_path_def components_sep_cons)
  qed
qed

lemma endswith_combine: "endswith_sep (combine_paths b s)"
  by (simp add: combine_paths_eq endswith_sep_def)

lemma clean_join_not_abs:
  "clean ps \<Longrightarrow> ps \<noteq> [] \<Longrightarrow> \<not> startswith_sep (join_sep ps @ ''/'')"
proof -
  assume cl: "clean ps" and ne: "ps \<noteq> []"
  then obtain p qs where ps: "ps = p # qs" by (cases ps) auto
  with cl obtain c cs where p: "p = c # cs" "c \<noteq> CHR ''/''"
    by (cases p) (auto simp: clean_def)
  show ?thesis unfolding ps p by (cases qs) (simp_all add: startswith_sep_def p)
qed

lemma startswith_combine: "startswith_sep (combine_paths b s) \<longleftrightarrow> startswith_sep b"
proof -
  let ?ps = "components b @ components s"
  have cl: "clean ?ps" by (simp add: clean_append clean_components)
  consider "root (Path b) = []" "?ps = []" | "root (Path b) = []" "?ps \<noteq> []"
    | "root (Path b) = ''/''" | "root (Path b) = ''//''"
    using root_Path_cases [of b] by blast
  then show ?thesis
  proof cases
    case 1
    then show ?thesis using root_Path_abs [of b]
      by (simp add: combine_paths_eq str_path_def startswith_sep_def)
  next
    case 2
    then show ?thesis using root_Path_abs [of b] clean_join_not_abs [OF cl]
      by (auto simp add: combine_paths_eq str_path_def)
  next
    case 3
    then show ?thesis using root_Path_abs [of b]
      by (simp add: combine_paths_eq str_path_def startswith_sep_def)
  next
    case 4
    then show ?thesis using root_Path_abs [of b]
      by (simp add: combine_paths_eq str_path_def startswith_sep_def)
  qed
qed

text \<open>
  Claim C4. The target path of a directory is computed by \<open>vol_path_of\<close> from the share
  mount point, the share root, the volume mount point and the directory path alone: the
  function has no other argument and reads no file system, so equal inputs give equal
  output. For every directory path that starts with the share mount point it is the
  volume mount point joined with the share root joined with what follows the mount point
  in the directory path: for a non-empty remainder it is \<open>combine_paths\<close> applied twice,
  for the mount point itself it is \<open>combine_paths\<close> of mount point and share root; in
  both cases its components are those of the volume mount point, then those of the share
  root, then those of the remainder, it ends with a slash, and it is absolute exactly
  when the volume mount point is.
\<close>

theorem vol_path_of_mapping:
  "vol_path_of sharemnt share_root volmnt (sharemnt @ rest) =
     (if rest = [] then combine_paths volmnt share_root
      else combine_paths (combine_paths volmnt share_root) rest)
   \<and> components (vol_path_of sharemnt share_root volmnt (sharemnt @ rest)) =
       components volmnt @ components share_root @ components rest
   \<and> endswith_sep (vol_path_of sharemnt share_root volmnt (sharemnt @ rest))
   \<and> (startswith_sep (vol_path_of sharemnt share_root volmnt (sharemnt @ rest))
        \<longleftrightarrow> startswith_sep volmnt)"
  by (simp add: vol_path_of_def components_combine endswith_combine startswith_combine
        components_Nil)

theorem vol_path_of_mapping_witness:
  "vol_path_of ''/mnt/share'' ''/share1'' ''/mnt/vol'' (''/mnt/share'' @ ''/a/b'') = ''/mnt/vol/share1/a/b/''
   \<and> components ''/mnt/vol/share1/a/b/'' = [''mnt'', ''vol'', ''share1'', ''a'', ''b'']"
  using vol_path_of_mapping [of "''/mnt/share''" "''/share1''" "''/mnt/vol''" "''/a/b''"]
  by (simp add: combine_paths_def components_def Path_def splitroot_def startswith_sep_def
       lstrip_sep_def truediv_def str_path_def endswith_sep_def)

section \<open>Properties of the worker\<close>

lemma worker_loop_posts:
  "\<exists>new. fst (worker_loop pf sc lg gets w rq) = rq @ new
         \<and> list_all2 (answers pf sc lg) (dequeued gets) new"
proof (induction gets arbitrary: w rq)
  case Nil
  then show ?case by simp
next
  case (Cons g gs)
  let ?w1 = "emit lg DEBUG ''Waiting to take item off queue'' w"
  show ?case
  proof (cases g)
    case QueueEmpty
    then show ?thesis using Cons.IH [of ?w1 rq] by (simp add: Let_def)
  next
    case (GetRaises e)
    obtain new where
      "fst (worker_loop pf sc lg gs (emit lg DEBUG ''Received queue error'' ?w1)
              (rq @ [unknown_error e])) = (rq @ [unknown_error e]) @ new"
      "list_all2 (answers pf sc lg) (dequeued gs) new"
      using Cons.IH by blast
    moreover have "answers pf sc lg (Inl e) (unknown_error e)"
      by (simp add: answers_def)
    ultimately show ?thesis using GetRaises
      by (intro exI [of _ "unknown_error e # new"]) (simp add: Let_def)
  next
    case (Item t)
    show ?thesis
    proof (cases t)
      case None
      then show ?thesis using Item by (simp add: Let_def)
    next
      case (Some tsk)
      obtain res w2 where pt: "process_task pf sc lg tsk ?w1 = (res, w2)"
        by (cases "process_task pf sc lg tsk ?w1")
      obtain new where
        "fst (worker_loop pf sc lg gs w2 (rq @ [res])) = (rq @ [res]) @ new"
        "list_all2 (answers pf sc lg) (dequeued gs) new"
        using Cons.IH by blast
      moreover have "answers pf sc lg (Inr tsk) res"
        unfolding answers_def using pt by (auto intro: exI [of _ ?w1])
      ultimately show ?thesis using Item Some pt
        by (intro exI [of _ "res # new"]) (simp add: Let_def)
    qed
  qed
qed

lemma process_task_success:
  "get_files_only sc d lg (emit lg DEBUG ''queue'' w) = (Inr names, w2) \<Longrightarrow>
   pf d names lg w2 = (Inr r, w3) \<Longrightarrow>
   fst (process_task pf sc lg (d, fns) w) =
     \<lparr>dr_directory = d, status = ''success'',
      file_results = map (\<lambda>fn. \<lparr>filepath = str_path (truediv (Path d) (Path fn)),
                                fr_status = ''success'', fr_result = None, fr_error = None\<rparr>) names,
      processing_result = Some r, error = None\<rparr>"
  by (simp add: process_task_def Let_def comp_def)

lemma process_task_error:
  "get_files_only sc d lg (emit lg DEBUG ''queue'' w) = (Inr names, w2) \<Longrightarrow>
   pf d names lg w2 = (Inl e, w3) \<Longrightarrow>
   fst (process_task pf sc lg (d, fns) w) =
     \<lparr>dr_directory = d, status = ''error'', file_results = [],
      processing_result = None, error = Some (str_exc e)\<rparr>"
  by (simp add: process_task_def Let_def)

text \<open>
  Claim C3. A worker appends to the result queue exactly one \<^verbatim>\<open>DirectoryResult\<close> for
  each item that is not the poison pill and that it takes off the task queue before the
  pill, in the order of the items (and one for each exception of \<^verbatim>\<open>get\<close> other than
  \<^verbatim>\<open>queue.Empty\<close>). For a task whose directory could be listed, the result has status
  \<^verbatim>\<open>success\<close> and the processing result when the processor function returns, and status
  \<^verbatim>\<open>error\<close> with the text of the exception, no file results and no processing result
  when the processor function raises; the loop goes on to the next item in both cases.
\<close>

theorem worker_posts_one_result_per_task:
  "(\<exists>new. fst (worker_function gets rq pf sc nl w) = rq @ new
          \<and> list_all2 (answers pf sc (if nl then Some ''DirectoryWalker-pid.log'' else None))
               (dequeued gets) new)
   \<and> (\<forall>d fns names w1 w2 r w3.
         get_files_only sc d lg (emit lg DEBUG ''queue'' w1) = (Inr names, w2)
         \<and> pf d names lg w2 = (Inr r, w3) \<longrightarrow>
         fst (process_task pf sc lg (d, fns) w1) =
           \<lparr>dr_directory = d, status = ''success'',
            file_results = map (\<lambda>fn. \<lparr>filepath = str_path (truediv (Path d) (Path fn)),
                                      fr_status = ''success'', fr_result = None, fr_error = None\<rparr>) names,
            processing_result = Some r, error = None\<rparr>)
   \<and> (\<forall>d fns names w1 w2 e w3.
         get_files_only sc d lg (emit lg DEBUG ''queue'' w1) = (Inr names, w2)
         \<and> pf d names lg w2 = (Inl e, w3) \<longrightarrow>
         fst (process_task pf sc lg (d, fns) w1) =
           \<lparr>dr_directory = d, status = ''error'', file_results = [],
            processing_result = None, error = Some (str_exc e)\<rparr>)"
proof (intro conjI allI impI)
  show "\<exists>new. fst (worker_function gets rq pf sc nl w) = rq @ new
          \<and> list_all2 (answers pf sc (if nl then Some ''DirectoryWalker-pid.log'' else None))
               (dequeued gets) new"
    unfolding worker_function_def Let_def by (rule worker_loop_posts)
next
  fix d fns names w1 w2 r w3
  assume "get_files_only sc d lg (emit lg DEBUG ''queue'' w1) = (Inr names, w2)
         \<and> pf d names lg w2 = (Inr r, w3)"
  then show "fst (process_task pf sc lg (d, fns) w1) =
           \<lparr>dr_directory = d, status = ''success'',
            file_results = map (\<lambda>fn. \<lparr>filepath = str_path (truediv (Path d) (Path fn)),
                                      fr_status = ''success'', fr_result = None, fr_error = None\<rparr>) names,
            processing_result = Some r, error = None\<rparr>"
    using process_task_success by blast
next
  fix d fns names w1 w2 e w3
  assume "get_files_only sc d lg (emit lg DEBUG ''queue'' w1) = (Inr names, w2)
         \<and> pf d names lg w2 = (Inl e, w3)"
  then show "fst (process_task pf sc lg (d, fns) w1) =
           \<lparr>dr_directory = d, status = ''error'', file_results = [],
            processing_result = None, error = Some (str_exc e)\<rparr>"
    using process_task_error by blast
qed

theorem worker_posts_one_result_per_task_witness:
  "get_files_only demo_scandir ''/bad'' None (emit None DEBUG ''queue'' demo_world) = (Inr [''a.txt''], demo_world)
   \<and> demo_processor ''/bad'' [''a.txt''] None demo_world = (Inl (RuntimeError ''boom''), demo_world)
   \<and> fst (process_task demo_processor demo_scandir None (''/bad'', []) demo_world) =
        \<lparr>dr_directory = ''/bad'', status = ''error'', file_results = [],
         processing_result = None, error = Some ''boom''\<rparr>
   \<and> demo_processor ''/good'' [''a.txt''] None demo_world = (Inr demo_summary, demo_world)
   \<and> fst (process_task demo_processor demo_scandir None (''/good'', []) demo_world) =
        \<lparr>dr_directory = ''/good'', status = ''success'',
         file_results = [\<lparr>filepath = ''/good/a.txt'', fr_status = ''success'',
                          fr_result = None, fr_error = None\<rparr>],
         processing_result = Some demo_summary, error = None\<rparr>
   \<and> length (fst (worker_function
                     [QueueEmpty, Item (Some (''/good'', [])), Item (Some (''/bad'', [])), Item None,
                      Item (Some (''/late'', []))]
                     [] demo_processor demo_scandir False demo_world)) = 2"
proof -
  have g: "\<And>d. get_files_only demo_scandir d None (emit None DEBUG ''queue'' demo_world)
             = (Inr [''a.txt''], demo_world)"
    by (simp add: get_files_only_def demo_scandir_def emit_def)
  have pb: "demo_processor ''/bad'' [''a.txt''] None demo_world = (Inl (RuntimeError ''boom''), demo_world)"
    by (simp add: demo_processor_def)
  have pg: "demo_processor ''/good'' [''a.txt''] None demo_world = (Inr demo_summary, demo_world)"
    by (simp add: demo_processor_def)
  note inst = worker_posts_one_result_per_task
      [of "[QueueEmpty, Item (Some (''/good'', [])), Item (Some (''/bad'', [])), Item None,
            Item (Some (''/late'', []))]" "[]" demo_processor demo_scandir False demo_world None]
  from inst obtain new where
    n: "fst (worker_function
               [QueueEmpty, Item (Some (''/good'', [])), Item (Some (''/bad'', [])), Item None,
                Item (Some (''/late'', []))]
               [] demo_processor demo_scandir False demo_world) = [] @ new"
       "list_all2 (answers demo_processor demo_scandir (if False then Some ''DirectoryWalker-pid.log'' else None))
          (dequeued [QueueEmpty, Item (Some (''/good'', [])), Item (Some (''/bad'', [])), Item None,
                     Item (Some (''/late'', []))]) new"
    by blast
  have len: "length new = 2" using list_all2_lengthD [OF n(2)] by simp
  have bad: "fst (process_task demo_processor demo_scandir None (''/bad'', []) demo_world) =
        \<lparr>dr_directory = ''/bad'', status = ''error'', file_results = [],
         processing_result = None, error = Some (str_exc (RuntimeError ''boom''))\<rparr>"
    using inst g [of "''/bad''"] pb by blast
  have good: "fst (process_task demo_processor demo_scandir None (''/good'', []) demo_world) =
        \<lparr>dr_directory = ''/good'', status = ''success'',
         file_results = map (\<lambda>fn. \<lparr>filepath = str_path (truediv (Path ''/good'') (Path fn)),
                                      fr_status = ''success'', fr_result = None, fr_error = None\<rparr>) [''a.txt''],
         processing_result = Some demo_summary, error = None\<rparr>"
    using inst g [of "''/good''"] pg by blast
  have fp: "str_path (truediv (Path ''/good'') (Path ''a.txt'')) = ''/good/a.txt''"
    by (simp add: str_path_def truediv_def Path_def splitroot_def startswith_sep_def
          lstrip_sep_def components_def)
  show ?thesis using g pb pg bad good len n(1) by (simp add: fp)
qed

section \<open>Properties of the scheduler\<close>

lemma walk_loop_abort:
  "k < length dirs \<Longrightarrow> \<not> list_ex (alive (k0 + k)) workers \<Longrightarrow>
   (\<And>j. j < k \<Longrightarrow> list_ex (alive (k0 + j)) workers) \<Longrightarrow>
   fst (walk_loop alive workers k0 dirs s) = Aborted
   \<and> task_queue (snd (walk_loop alive workers k0 dirs s)) =
       task_queue s @ map (\<lambda>d. Some (str_path (Path d), [])) (take (Suc k) dirs)
   \<and> joined (snd (walk_loop alive workers k0 dirs s)) = joined s @ workers"
proof (induction dirs arbitrary: k k0 s)
  case Nil
  then show ?case by simp
next
  case (Cons d ds)
  show ?case
  proof (cases k)
    case 0
    with Cons.prems show ?thesis
      by (simp add: Let_def put_task_def slog_def join_all_def)
  next
    case (Suc k')
    have alive0: "list_ex (alive k0) workers" using Cons.prems(3) [of 0] Suc by simp
    have a: "k' < length ds" using Cons.prems(1) Suc by simp
    have b: "\<not> list_ex (alive (Suc k0 + k')) workers" using Cons.prems(2) Suc by simp
    have c: "\<And>j. j < k' \<Longrightarrow> list_ex (alive (Suc k0 + j)) workers"
      using Cons.prems(3) Suc by (metis add_Suc_shift Suc_less_eq)
    note IH = Cons.IH [OF a b c]
    show ?thesis using alive0 Suc
      by (simp add: Let_def IH put_task_def slog_def)
  qed
qed

text \<open>
  Claim C8. In the traversal loop of \<^verbatim>\<open>walk_directories\<close> the liveness of the workers
  is checked after every enqueue. When the check after the \<open>k\<close>-th directory is the first
  to find no worker alive, the run ends as aborted: the task queue has received the tasks
  of the directories up to that one and nothing more, no poison pill among them, and
  every worker has been joined.
\<close>

theorem walk_directories_abort:
  "k < length dirs \<and> \<not> list_ex (alive k) [0..<n] \<and> (\<forall>j<k. list_ex (alive j) [0..<n]) \<longrightarrow>
   fst (walk_directories n alive dirs s) = Aborted
   \<and> task_queue (snd (walk_directories n alive dirs s)) =
       task_queue s @ map (\<lambda>d. Some (str_path (Path d), [])) (take (Suc k) dirs)
   \<and> None \<notin> set (drop (length (task_queue s)) (task_queue (snd (walk_directories n alive dirs s))))
   \<and> joined (snd (walk_directories n alive dirs s)) = joined s @ [0..<n]"
proof (intro impI)
  assume h: "k < length dirs \<and> \<not> list_ex (alive k) [0..<n] \<and> (\<forall>j<k. list_ex (alive j) [0..<n])"
  let ?s1 = "slog DEBUG ''Starting processes''
                 (slog DEBUG ''Creating multiprocessing structures''
                    (slog INFO ''Starting directory walk'' s))"
  have q: "task_queue ?s1 = task_queue s" "joined ?s1 = joined s" by (simp_all add: slog_def)
  have "fst (walk_loop alive [0..<n] 0 dirs ?s1) = Aborted
   \<and> task_queue (snd (walk_loop alive [0..<n] 0 dirs ?s1)) =
       task_queue ?s1 @ map (\<lambda>d. Some (str_path (Path d), [])) (take (Suc k) dirs)
   \<and> joined (snd (walk_loop alive [0..<n] 0 dirs ?s1)) = joined ?s1 @ [0..<n]"
    using h by (intro walk_loop_abort) simp_all
  then show "fst (walk_directories n alive dirs s) = Aborted
   \<and> task_queue (snd (walk_directories n alive dirs s)) =
       task_queue s @ map (\<lambda>d. Some (str_path (Path d), [])) (take (Suc k) dirs)
   \<and> None \<notin> set (drop (length (task_queue s)) (task_queue (snd (walk_directories n alive dirs s))))
   \<and> joined (snd (walk_directories n alive dirs s)) = joined s @ [0..<n]"
    unfolding walk_directories_def Let_def q
    by (cases "walk_loop alive [0..<n] 0 dirs ?s1") auto
qed

theorem walk_directories_abort_witness:
  "fst (walk_directories 2 (\<lambda>k p. k = 0) [''/mnt/share'', ''/mnt/share/a'', ''/mnt/share/b'']
          \<lparr>task_queue = [], joined = [], sched_log = []\<rparr>) = Aborted
   \<and> task_queue (snd (walk_directories 2 (\<lambda>k p. k = 0) [''/mnt/share'', ''/mnt/share/a'', ''/mnt/share/b'']
          \<lparr>task_queue = [], joined = [], sched_log = []\<rparr>)) =
       [Some (''/mnt/share'', []), Some (''/mnt/share/a'', [])]
   \<and> joined (snd (walk_directories 2 (\<lambda>k p. k = 0) [''/mnt/share'', ''/mnt/share/a'', ''/mnt/share/b'']
          \<lparr>task_queue = [], joined = [], sched_log = []\<rparr>)) = [0, 1]"
proof -
  have u: "[0..<2] = [0, Suc 0]" by (simp add: upt_rec)
  have h: "(1::nat) < length [''/mnt/share'', ''/mnt/share/a'', ''/mnt/share/b'']
     \<and> \<not> list_ex ((\<lambda>k p. k = 0) (1::nat)) [0..<2]
     \<and> (\<forall>j<1. list_ex ((\<lambda>k p. k = (0::nat)) j) [0..<2])"
    by (auto simp add: u)
  show ?thesis
    using walk_directories_abort [of 1 "[''/mnt/share'', ''/mnt/share/a'', ''/mnt/share/b'']"
        "\<lambda>k p. k = 0" 2 "\<lparr>task_queue = [], joined = [], sched_log = []\<rparr>"] h
    by (simp add: u str_path_def Path_def splitroot_def startswith_sep_def lstrip_sep_def
          components_def)
qed

section \<open>Properties of the attribute copy\<close>

lemma copy_file_attrs_SYMLINK:
  "copy_file_attrs src dst SYMLINK st lg w =
     (case os_lchown dst (st_uid st) (st_gid st) (vol w) of
        Inl e \<Rightarrow> (Inl e, emit lg DEBUG ''os.lchown'' w)
      | Inr v \<Rightarrow>
          (Inr (), emit lg DEBUG ''Filetype not supported for setting atime/mtime''
                     (emit lg DEBUG ''os.chmod not supported symlink''
                        ((emit lg DEBUG ''os.lchown'' w)\<lparr>vol := v\<rparr>))))"
  by (simp add: copy_file_attrs_def sublist_symlink vol_emit Let_def split: sum.splits)

lemma copy_file_attrs_all:
  "ft = REGULAR \<or> ft = DIR \<Longrightarrow>
   copy_file_attrs src dst ft st lg w =
     (case os_lchown dst (st_uid st) (st_gid st) (vol w) of
        Inl e \<Rightarrow> (Inl e, emit lg DEBUG ''os.lchown'' w)
      | Inr v1 \<Rightarrow>
          (case os_chmod dst (S_IMODE (st_mode st)) v1 of
             Inl e \<Rightarrow> (Inl e, emit lg DEBUG ''os.chmod'' ((emit lg DEBUG ''os.lchown'' w)\<lparr>vol := v1\<rparr>))
           | Inr v2 \<Rightarrow>
               (case os_utime dst (st_atime st, st_mtime st) v2 of
                  Inl e \<Rightarrow>
                    (Inl e, emit lg DEBUG ''os.utime''
                              ((emit lg DEBUG ''os.chmod'' ((emit lg DEBUG ''os.lchown'' w)\<lparr>vol := v1\<rparr>))\<lparr>vol := v2\<rparr>))
                | Inr v3 \<Rightarrow>
                    (Inr (), (emit lg DEBUG ''os.utime''
                              ((emit lg DEBUG ''os.chmod'' ((emit lg DEBUG ''os.lchown'' w)\<lparr>vol := v1\<rparr>))\<lparr>vol := v2\<rparr>))\<lparr>vol := v3\<rparr>))))"
  by (auto simp add: copy_file_attrs_def vol_emit Let_def split: sum.splits)

text \<open>
  Claim C9. For the file type \<^verbatim>\<open>SYMLINK\<close>, \<^verbatim>\<open>copy_file_attrs\<close> changes the volume by
  the \<^verbatim>\<open>lchown\<close> alone and leaves the share as it is: on an existing destination the
  call returns and the node differs from the old one in owner and group only, so no
  permission bits and no times are written. For \<^verbatim>\<open>REGULAR\<close> and \<^verbatim>\<open>DIR\<close> it applies
  \<^verbatim>\<open>lchown\<close>, then \<^verbatim>\<open>chmod\<close>, then \<^verbatim>\<open>utime\<close>: the volume it leaves is the result of
  the three calls in that order, and on an existing destination the node takes owner,
  group, permission bits and both times from the source's stat record.
\<close>

theorem copy_file_attrs_frame:
  "vol (snd (copy_file_attrs src dst SYMLINK st lg w)) =
     (case os_lchown dst (st_uid st) (st_gid st) (vol w) of Inl e \<Rightarrow> vol w | Inr v \<Rightarrow> v)
   \<and> share (snd (copy_file_attrs src dst SYMLINK st lg w)) = share w
   \<and> (\<forall>n. vol w (key_of dst) = Some n \<longrightarrow>
         fst (copy_file_attrs src dst SYMLINK st lg w) = Inr ()
         \<and> vol (snd (copy_file_attrs src dst SYMLINK st lg w)) =
             (vol w)(key_of dst \<mapsto> n\<lparr>nstat := (nstat n)\<lparr>st_uid := st_uid st, st_gid := st_gid st\<rparr>\<rparr>))
   \<and> (\<forall>ft v1 v2 v3. (ft = REGULAR \<or> ft = DIR)
         \<and> os_lchown dst (st_uid st) (st_gid st) (vol w) = Inr v1
         \<and> os_chmod dst (S_IMODE (st_mode st)) v1 = Inr v2
         \<and> os_utime dst (st_atime st, st_mtime st) v2 = Inr v3 \<longrightarrow>
         fst (copy_file_attrs src dst ft st lg w) = Inr ()
         \<and> vol (snd (copy_file_attrs src dst ft st lg w)) = v3)
   \<and> (\<forall>ft n. (ft = REGULAR \<or> ft = DIR) \<and> vol w (key_of dst) = Some n \<longrightarrow>
         fst (copy_file_attrs src dst ft st lg w) = Inr ()
         \<and> vol (snd (copy_file_attrs src dst ft st lg w)) =
             (vol w)(key_of dst \<mapsto>
                n\<lparr>nstat := (nstat n)\<lparr>st_uid := st_uid st, st_gid := st_gid st,
                      st_mode := S_IFMT (st_mode (nstat n)) + S_IMODE (st_mode st),
                      st_atime := st_atime st, st_mtime := st_mtime st\<rparr>\<rparr>))"
proof (intro conjI allI impI)
  show "vol (snd (copy_file_attrs src dst SYMLINK st lg w)) =
     (case os_lchown dst (st_uid st) (st_gid st) (vol w) of Inl e \<Rightarrow> vol w | Inr v \<Rightarrow> v)"
    by (simp add: copy_file_attrs_SYMLINK vol_emit split: sum.splits)
  show "share (snd (copy_file_attrs src dst SYMLINK st lg w)) = share w"
    by (simp add: copy_file_attrs_SYMLINK share_emit split: sum.splits)
next
  fix n assume "vol w (key_of dst) = Some n"
  then show "fst (copy_file_attrs src dst SYMLINK st lg w) = Inr ()"
    and "vol (snd (copy_file_attrs src dst SYMLINK st lg w)) =
             (vol w)(key_of dst \<mapsto> n\<lparr>nstat := (nstat n)\<lparr>st_uid := st_uid st, st_gid := st_gid st\<rparr>\<rparr>)"
    by (simp_all add: copy_file_attrs_SYMLINK os_lchown_def vol_emit)
next
  fix ft v1 v2 v3
  assume "(ft = REGULAR \<or> ft = DIR)
         \<and> os_lchown dst (st_uid st) (st_gid st) (vol w) = Inr v1
         \<and> os_chmod dst (S_IMODE (st_mode st)) v1 = Inr v2
         \<and> os_utime dst (st_atime st, st_mtime st) v2 = Inr v3"
  then show "fst (copy_file_attrs src dst ft st lg w) = Inr ()"
    and "vol (snd (copy_file_attrs src dst ft st lg w)) = v3"
    by (simp_all add: copy_file_attrs_all vol_emit)
next
  fix ft n
  assume "(ft = REGULAR \<or> ft = DIR) \<and> vol w (key_of dst) = Some n"
  then show "fst (copy_file_attrs src dst ft st lg w) = Inr ()"
    and "vol (snd (copy_file_attrs src dst ft st lg w)) =
             (vol w)(key_of dst \<mapsto>
                n\<lparr>nstat := (nstat n)\<lparr>st_uid := st_uid st, st_gid := st_gid st,
                      st_mode := S_IFMT (st_mode (nstat n)) + S_IMODE (st_mode st),
                      st_atime := st_atime st, st_mtime := st_mtime st\<rparr>\<rparr>)"
    by (simp_all add: copy_file_attrs_all os_lchown_def os_chmod_def os_utime_def vol_emit S_IMODE_def)
qed

theorem copy_file_attrs_frame_witness:
  "vol \<lparr>share = Map.empty, vol = [[''/'', ''v'', ''l''] \<mapsto> new_node 41471 4 ''/etc''], logged = []\<rparr>
       (key_of ''/v/l'') = Some (new_node 41471 4 ''/etc'')
   \<and> map_option nstat
        (vol (snd (copy_file_attrs ''/s/l'' ''/v/l'' SYMLINK
                \<lparr>st_mode = 33188, st_uid = 1000, st_gid = 100, st_size = 9, st_atime = 77, st_mtime = 88\<rparr>
                None
                \<lparr>share = Map.empty, vol = [[''/'', ''v'', ''l''] \<mapsto> new_node 41471 4 ''/etc''], logged = []\<rparr>))
           [''/'', ''v'', ''l'']) =
       Some \<lparr>st_mode = 41471, st_uid = 1000, st_gid = 100, st_size = 4, st_atime = 0, st_mtime = 0\<rparr>
   \<and> map_option nstat
        (vol (snd (copy_file_attrs ''/s/l'' ''/v/l'' DIR
                \<lparr>st_mode = 33188, st_uid = 1000, st_gid = 100, st_size = 9, st_atime = 77, st_mtime = 88\<rparr>
                None
                \<lparr>share = Map.empty, vol = [[''/'', ''v'', ''l''] \<mapsto> new_node 41471 4 ''/etc''], logged = []\<rparr>))
           [''/'', ''v'', ''l'']) =
       Some \<lparr>st_mode = 41380, st_uid = 1000, st_gid = 100, st_size = 4, st_atime = 77, st_mtime = 88\<rparr>"
proof -
  let ?w = "\<lparr>share = Map.empty, vol = [[''/'', ''v'', ''l''] \<mapsto> new_node 41471 4 ''/etc''], logged = []\<rparr>"
  let ?st = "\<lparr>st_mode = 33188, st_uid = 1000, st_gid = 100, st_size = 9, st_atime = 77, st_mtime = 88\<rparr>"
  have k: "key_of ''/v/l'' = [''/'', ''v'', ''l'']"
    by (simp add: key_of_def components_def startswith_sep_def)
  have e: "vol ?w (key_of ''/v/l'') = Some (new_node 41471 4 ''/etc'')"
    by (simp add: k)
  note inst = copy_file_attrs_frame [of "''/s/l''" "''/v/l''" ?st None ?w]
  have s: "vol (snd (copy_file_attrs ''/s/l'' ''/v/l'' SYMLINK ?st None ?w)) =
             (vol ?w)(key_of ''/v/l'' \<mapsto> (new_node 41471 4 ''/etc'')
                \<lparr>nstat := (nstat (new_node 41471 4 ''/etc''))\<lparr>st_uid := st_uid ?st, st_gid := st_gid ?st\<rparr>\<rparr>)"
    using inst e by blast
  have d: "vol (snd (copy_file_attrs ''/s/l'' ''/v/l'' DIR ?st None ?w)) =
             (vol ?w)(key_of ''/v/l'' \<mapsto> (new_node 41471 4 ''/etc'')
                \<lparr>nstat := (nstat (new_node 41471 4 ''/etc''))\<lparr>st_uid := st_uid ?st, st_gid := st_gid ?st,
                      st_mode := S_IFMT (st_mode (nstat (new_node 41471 4 ''/etc''))) + S_IMODE (st_mode ?st),
                      st_atime := st_atime ?st, st_mtime := st_mtime ?st\<rparr>\<rparr>)"
    using inst e by blast
  show ?thesis
    unfolding s d by (simp add: k new_node_def S_IFMT_def S_IMODE_def)
qed

section \<open>Properties of the walker's constructor\<close>

text \<open>
  Claim C10. Constructing a \<^verbatim>\<open>DirectoryWalker\<close> with \<^verbatim>\<open>result_processor\<close> left at
  \<^verbatim>\<open>None\<close> raises \<^verbatim>\<open>TypeError\<close>, whatever the other arguments are: the fallback calls
  \<^verbatim>\<open>DefaultResultProcessor\<close> with the keyword \<^verbatim>\<open>process_results\<close>, which its
  constructor does not declare. Construction succeeds exactly when a result processor is
  passed.
\<close>

theorem DirectoryWalker_init_default:
  "DirectoryWalker_init n name lg None =
     Inl (TypeError ''__init__() got an unexpected keyword argument process_results'')
   \<and> ((\<exists>wk. DirectoryWalker_init n name lg rp = Inr wk) \<longleftrightarrow> rp \<noteq> None)"
  by (cases rp) (simp_all add: DirectoryWalker_init_def DefaultResultProcessor_init_def bind_keywords_def)

theorem DirectoryWalker_init_default_witness:
  "(\<exists>wk. DirectoryWalker_init 4 ''DirectoryWalker'' None
           (Some (CustomRP \<lparr>total_directories = 0, rp_total_files = 0, rp_total_size = 0,
                            rp_logger = None\<rparr>)) = Inr wk)
   \<and> DirectoryWalker_init 4 ''DirectoryWalker'' None None =
       Inl (TypeError ''__init__() got an unexpected keyword argument process_results'')"
  using DirectoryWalker_init_default [of 4 "''DirectoryWalker''" None
          "Some (CustomRP \<lparr>total_directories = 0, rp_total_files = 0, rp_total_size = 0,
                           rp_logger = None\<rparr>)"]
  by simp

end
